theory Spec2Isabelle
  imports Complex_Main
begin

section \<open>Events, metadata and errors\<close>

text \<open>
  A nostr tag is an array of strings; an event carries a list of them. \<open>ev_pubkey\<close> is
  present on a \<open>SignedEvent\<close> and absent on an \<open>EventTemplate\<close> (the code asks
  \<open>Reflect.has(event, "pubkey")\<close>). The \<open>id\<close> and \<open>sig\<close> of a signed event are never read
  by the drive and are left out.
\<close>

type_synonym tag = "string list"

record event =
  kind :: nat
  content :: string
  created_at :: int
  tags :: "tag list"
  ev_pubkey :: "string option"

text \<open>\<open>DriveMetadata\<close> of Drive.ts.\<close>

record drive_metadata =
  name :: string
  md_identifier :: string
  description :: string
  servers :: "string list"
  md_pubkey :: "string option"
  treeTags :: "tag list"

text \<open>
  Every \<open>throw\<close> of the source is a value. \<open>InvalidURL s\<close> is the \<open>TypeError\<close> of
  \<open>new URL("/", s)\<close> on a string that is no URL; \<open>External m\<close> is an error raised by a
  collaborator (signer, publisher, cipher, tree methods).
\<close>

datatype error =
    MissingDTag
  | InvalidURL string
  | NoEvent
  | AlreadyUnlocked
  | NoPasswordProvided
  | NoPasswordSet
  | DriveLocked
  | External string

text \<open>
  What a drive does to the outside world, in order: the notifications it emits and the
  calls it makes to its signer and publisher.
\<close>

datatype effect =
    EmitChange
  | EmitUpdate
  | SignerCall event
  | PublisherCall event

record file_metadata =
  sha256 :: string
  fsize :: nat
  mime :: string

text \<open>
  The tree (\<open>TreeFolder\<close>, \<open>FileTree/methods.js\<close>, \<open>nostr.js\<close>) and the platform's \<open>URL\<close>
  class are not part of the files verified here: the drive is parametrised by them.
  \<open>url_root s\<close> is \<open>new URL("/", s).toString()\<close>, \<open>None\<close> when the constructor throws.
  The tree methods work in place on \<open>this.tree\<close>: each returns the tree it leaves behind,
  also when it throws.
\<close>

record 't platform =
  url_root :: "string \<Rightarrow> string option"
  createTreeFromTags :: "tag list \<Rightarrow> error + 't"
  updateTreeInTags :: "tag list \<Rightarrow> 't \<Rightarrow> tag list"
  new_root :: 't
  tree_getFolder :: "'t \<Rightarrow> string \<Rightarrow> bool \<Rightarrow> 't \<times> (error + 't)"
  tree_remove :: "'t \<Rightarrow> string \<Rightarrow> 't \<times> (error + unit)"
  tree_move :: "'t \<Rightarrow> string \<Rightarrow> string \<Rightarrow> 't \<times> (error + unit)"
  tree_setFile :: "'t \<Rightarrow> string \<Rightarrow> file_metadata \<Rightarrow> 't \<times> (error + 't)"

section \<open>Drive\<close>

record 't drive =
  tree :: 't
  event :: "event option"
  modified :: bool
  metadata :: drive_metadata
  trace :: "effect list"

definition DRIVE_KIND :: nat where
  "DRIVE_KIND = 30563"

definition getEmptyMetadata :: drive_metadata where
  "getEmptyMetadata =
     \<lparr>name = [], md_identifier = [], description = [], servers = [],
      md_pubkey = None, treeTags = []\<rparr>"

definition new_Drive :: "'t platform \<Rightarrow> 't drive" where
  "new_Drive te =
     \<lparr>tree = new_root te, event = None, modified = False,
      metadata = getEmptyMetadata, trace = []\<rparr>"

subsection \<open>Metadata setters\<close>

definition emit :: "effect \<Rightarrow> ('t, 'z) drive_scheme \<Rightarrow> ('t, 'z) drive_scheme" where
  "emit x d = d\<lparr>trace := trace d @ [x]\<rparr>"

definition set_identifier :: "string \<Rightarrow> ('t, 'z) drive_scheme \<Rightarrow> ('t, 'z) drive_scheme" where
  "set_identifier v d =
     emit EmitChange (d\<lparr>metadata := (metadata d)\<lparr>md_identifier := v\<rparr>, modified := True\<rparr>)"

definition set_name :: "string \<Rightarrow> ('t, 'z) drive_scheme \<Rightarrow> ('t, 'z) drive_scheme" where
  "set_name v d =
     emit EmitChange (d\<lparr>metadata := (metadata d)\<lparr>name := v\<rparr>, modified := True\<rparr>)"

definition set_description :: "string \<Rightarrow> ('t, 'z) drive_scheme \<Rightarrow> ('t, 'z) drive_scheme" where
  "set_description v d =
     emit EmitChange (d\<lparr>metadata := (metadata d)\<lparr>description := v\<rparr>, modified := True\<rparr>)"

definition set_servers :: "string list \<Rightarrow> ('t, 'z) drive_scheme \<Rightarrow> ('t, 'z) drive_scheme" where
  "set_servers v d =
     emit EmitChange (d\<lparr>metadata := (metadata d)\<lparr>servers := v\<rparr>, modified := True\<rparr>)"

subsection \<open>Reading tags\<close>

text \<open>\<open>t[0] === k\<close>: false on an empty tag, whose \<open>t[0]\<close> is \<open>undefined\<close>.\<close>

definition tag_is :: "string \<Rightarrow> tag \<Rightarrow> bool" where
  "tag_is k t = (case t of [] \<Rightarrow> False | x # _ \<Rightarrow> x = k)"

text \<open>\<open>t[1]\<close>: \<open>None\<close> is \<open>undefined\<close>.\<close>

definition tag_value :: "tag \<Rightarrow> string option" where
  "tag_value t = (case t of _ # v # _ \<Rightarrow> Some v | _ \<Rightarrow> None)"

text \<open>\<open>tags.find((t) => t[0] === k)?.[1]\<close>: the value of the first tag with key \<open>k\<close>.\<close>

definition find_tag_value :: "string \<Rightarrow> tag list \<Rightarrow> string option" where
  "find_tag_value k ts = (case find (tag_is k) ts of None \<Rightarrow> None | Some t \<Rightarrow> tag_value t)"

text \<open>
  \<open>tags.filter((t) => (t[0] === "r" || t[0] === "server") && t[1])\<close>, read at \<open>t[1]\<close>:
  the empty string is falsy.
\<close>

definition server_values :: "tag list \<Rightarrow> string list" where
  "server_values ts =
     List.map_filter
       (\<lambda>t. if tag_is ''r'' t \<or> tag_is ''server'' t
            then (case tag_value t of
                    None \<Rightarrow> None
                  | Some v \<Rightarrow> if v = [] then None else Some v)
            else None) ts"

text \<open>\<open>xs.map((s) => new URL("/", s).toString())\<close>: the first string that is no URL throws.\<close>

fun url_roots :: "(string \<Rightarrow> string option) \<Rightarrow> string list \<Rightarrow> error + string list" where
  "url_roots f [] = Inr []"
| "url_roots f (s # ss) =
     (case f s of
        None \<Rightarrow> Inl (InvalidURL s)
      | Some u \<Rightarrow> (case url_roots f ss of Inl e \<Rightarrow> Inl e | Inr us \<Rightarrow> Inr (u # us)))"

definition Drive_readEvent ::
  "'t platform \<Rightarrow> ('t, 'z) drive_scheme \<Rightarrow> event \<Rightarrow> error + drive_metadata" where
  "Drive_readEvent te d ev =
     (let nm = (case find_tag_value ''name'' (tags ev) of
                  Some v \<Rightarrow> v
                | None \<Rightarrow> md_identifier (metadata d));
          descr = (case find_tag_value ''description'' (tags ev) of
                     Some v \<Rightarrow> v
                   | None \<Rightarrow> [])
      in case url_roots (url_root te) (server_values (tags ev)) of
           Inl e \<Rightarrow> Inl e
         | Inr srv \<Rightarrow>
             (case find_tag_value ''d'' (tags ev) of
                None \<Rightarrow> Inl MissingDTag
              | Some i \<Rightarrow>
                  if i = [] then Inl MissingDTag
                  else Inr \<lparr>name = nm, md_identifier = i, description = descr, servers = srv,
                            md_pubkey = ev_pubkey ev,
                            treeTags = filter (\<lambda>t. tag_is ''x'' t \<or> tag_is ''folder'' t)
                                         (tags ev)\<rparr>))"

subsection \<open>Writing the event template\<close>

definition removed_tag :: "tag \<Rightarrow> bool" where
  "removed_tag t =
     (case t of
        [] \<Rightarrow> False
      | k # _ \<Rightarrow> k \<in> set [''name'', ''description'', ''d'', ''r'', ''server''])"

text \<open>
  \<open>now\<close> is the value of \<open>Math.floor(Date.now() / 1000)\<close> at the call. The servers are
  put in front one by one (\<open>unshift\<close>), so they end up in reverse order.
\<close>

definition Drive_createEventTemplate ::
  "'t platform \<Rightarrow> int \<Rightarrow> ('t, 'z) drive_scheme \<Rightarrow> error + event" where
  "Drive_createEventTemplate te now d =
     (let old = (case event d of None \<Rightarrow> [] | Some ev \<Rightarrow> tags ev);
          newTags = filter (\<lambda>t. \<not> removed_tag t) (updateTreeInTags te old (tree d))
      in case url_roots (url_root te) (servers (metadata d)) of
           Inl e \<Rightarrow> Inl e
         | Inr us \<Rightarrow>
             Inr \<lparr>kind = DRIVE_KIND,
                  content = (case event d of None \<Rightarrow> [] | Some ev \<Rightarrow> content ev),
                  created_at = now,
                  tags = [[''name'', name (metadata d)],
                          [''description'', description (metadata d)],
                          [''d'', md_identifier (metadata d)]]
                         @ rev (map (\<lambda>u. [''server'', u]) us) @ newTags,
                  ev_pubkey = None\<rparr>)"

subsection \<open>update, resetFromEvent, save\<close>

text \<open>
  \<open>resetFromEvent\<close> calls \<open>this.readEvent\<close>, which \<open>EncryptedDrive\<close> overrides: the method
  is the parameter \<open>rd\<close>, which also returns the drive (the override writes
  \<open>this.locked\<close>). A \<open>throw\<close> leaves the drive as it is at that moment: the result pairs
  the drive with the error.
\<close>

definition Drive_resetFromEvent ::
  "(('t, 'z) drive_scheme \<Rightarrow> event \<Rightarrow> ('t, 'z) drive_scheme \<times> (error + drive_metadata))
   \<Rightarrow> 't platform \<Rightarrow> ('t, 'z) drive_scheme \<Rightarrow> ('t, 'z) drive_scheme \<times> (error + unit)" where
  "Drive_resetFromEvent rd te d =
     (case event d of
        None \<Rightarrow> (d, Inr ())
      | Some ev \<Rightarrow>
          (case rd d ev of
             (d1, Inl e) \<Rightarrow> (d1, Inl e)
           | (d1, Inr md) \<Rightarrow>
               (case createTreeFromTags te (treeTags md) of
                  Inl e \<Rightarrow> (d1\<lparr>metadata := md\<rparr>, Inl e)
                | Inr t \<Rightarrow>
                    (emit EmitChange (d1\<lparr>metadata := md, tree := t, modified := False\<rparr>),
                     Inr ()))))"

definition newer :: "event \<Rightarrow> event option \<Rightarrow> bool" where
  "newer ev resident =
     (case resident of None \<Rightarrow> True | Some r \<Rightarrow> created_at ev > created_at r)"

definition Drive_update_with ::
  "(('t, 'z) drive_scheme \<Rightarrow> event \<Rightarrow> ('t, 'z) drive_scheme \<times> (error + drive_metadata))
   \<Rightarrow> 't platform \<Rightarrow> event \<Rightarrow> ('t, 'z) drive_scheme
   \<Rightarrow> ('t, 'z) drive_scheme \<times> (error + bool)" where
  "Drive_update_with rd te ev d =
     (if newer ev (event d)
      then (case Drive_resetFromEvent rd te (d\<lparr>event := Some ev\<rparr>) of
              (d1, Inl e) \<Rightarrow> (d1, Inl e)
            | (d1, Inr _) \<Rightarrow> (emit EmitUpdate d1, Inr True))
      else (d, Inr False))"

text \<open>The methods of the plain \<open>Drive\<close>: \<open>this.readEvent\<close> is \<open>Drive.readEvent\<close>.\<close>

definition plain_readEvent ::
  "'t platform \<Rightarrow> ('t, 'z) drive_scheme \<Rightarrow> event
   \<Rightarrow> ('t, 'z) drive_scheme \<times> (error + drive_metadata)" where
  "plain_readEvent te d ev = (d, Drive_readEvent te d ev)"

definition Drive_update ::
  "'t platform \<Rightarrow> event \<Rightarrow> ('t, 'z) drive_scheme \<Rightarrow> ('t, 'z) drive_scheme \<times> (error + bool)" where
  "Drive_update te ev d = Drive_update_with (plain_readEvent te) te ev d"

text \<open>A caller that feeds a drive one event after the other, catching what is thrown.\<close>

fun updates :: "'t platform \<Rightarrow> event list \<Rightarrow> ('t, 'z) drive_scheme \<Rightarrow> ('t, 'z) drive_scheme" where
  "updates te [] d = d"
| "updates te (ev # evs) d = updates te evs (fst (Drive_update te ev d))"

text \<open>
  \<open>save\<close> of the plain \<open>Drive\<close>. \<open>signer\<close> and \<open>publisher\<close> are the fields of the same
  name; \<open>Inr None\<close> is the \<open>undefined\<close> of the early return, \<open>Inr (Some signed)\<close> the
  signed event. The value of \<open>this.update(signed)\<close> is dropped.
\<close>

definition Drive_save ::
  "'t platform \<Rightarrow> (event \<Rightarrow> error + event) \<Rightarrow> (event \<Rightarrow> error + unit) \<Rightarrow> int
   \<Rightarrow> ('t, 'z) drive_scheme \<Rightarrow> ('t, 'z) drive_scheme \<times> (error + event option)" where
  "Drive_save te signer publisher now d =
     (if \<not> modified d then (d, Inr None)
      else case Drive_createEventTemplate te now d of
             Inl e \<Rightarrow> (d, Inl e)
           | Inr tmpl \<Rightarrow>
               (let d1 = emit (SignerCall tmpl) d in
                case signer tmpl of
                  Inl e \<Rightarrow> (d1, Inl e)
                | Inr signed \<Rightarrow>
                    (let d2 = emit (PublisherCall signed) d1 in
                     case publisher signed of
                       Inl e \<Rightarrow> (d2, Inl e)
                     | Inr _ \<Rightarrow>
                         (case Drive_update te signed d2 of
                            (d3, Inl e) \<Rightarrow> (d3, Inl e)
                          | (d3, Inr _) \<Rightarrow> (d3, Inr (Some signed))))))"

subsection \<open>Tree accessors\<close>

definition Drive_getFolder ::
  "'t platform \<Rightarrow> string \<Rightarrow> bool \<Rightarrow> ('t, 'z) drive_scheme
   \<Rightarrow> ('t, 'z) drive_scheme \<times> (error + 't)" where
  "Drive_getFolder te path create d =
     (case tree_getFolder te (tree d) path create of
        (t, Inl e) \<Rightarrow> (d\<lparr>tree := t\<rparr>, Inl e)
      | (t, Inr folder) \<Rightarrow>
          ((if create then d\<lparr>tree := t, modified := True\<rparr> else d\<lparr>tree := t\<rparr>), Inr folder))"

definition Drive_remove ::
  "'t platform \<Rightarrow> string \<Rightarrow> ('t, 'z) drive_scheme \<Rightarrow> ('t, 'z) drive_scheme \<times> (error + unit)" where
  "Drive_remove te path d =
     (case tree_remove te (tree d) path of
        (t, Inl e) \<Rightarrow> (d\<lparr>tree := t\<rparr>, Inl e)
      | (t, Inr _) \<Rightarrow> (emit EmitChange (d\<lparr>tree := t, modified := True\<rparr>), Inr ()))"

definition Drive_move ::
  "'t platform \<Rightarrow> string \<Rightarrow> string \<Rightarrow> ('t, 'z) drive_scheme
   \<Rightarrow> ('t, 'z) drive_scheme \<times> (error + unit)" where
  "Drive_move te src dest d =
     (case tree_move te (tree d) src dest of
        (t, Inl e) \<Rightarrow> (d\<lparr>tree := t\<rparr>, Inl e)
      | (t, Inr _) \<Rightarrow> (emit EmitChange (d\<lparr>tree := t, modified := True\<rparr>), Inr ()))"

definition Drive_setFile ::
  "'t platform \<Rightarrow> string \<Rightarrow> file_metadata \<Rightarrow> ('t, 'z) drive_scheme
   \<Rightarrow> ('t, 'z) drive_scheme \<times> (error + 't)" where
  "Drive_setFile te path m d =
     (case tree_setFile te (tree d) path m of
        (t, Inl e) \<Rightarrow> (d\<lparr>tree := t\<rparr>, Inl e)
      | (t, Inr file) \<Rightarrow> (emit EmitChange (d\<lparr>tree := t, modified := True\<rparr>), Inr file))"

section \<open>EncryptedDrive\<close>

text \<open>
  \<open>drivePasswords\<close> is a module-level \<open>WeakMap\<close> keyed by the drive: the entry of a
  drive is the field \<open>password\<close>, \<open>None\<close> when the map has no entry for it.
\<close>

record 't encrypted_drive = "'t drive" +
  logn :: int
  locked :: bool
  password :: "string option"

definition DEFAULT_SCRYPT_LOGN :: int where
  "DEFAULT_SCRYPT_LOGN = 10"

definition new_EncryptedDrive :: "'t platform \<Rightarrow> 't encrypted_drive" where
  "new_EncryptedDrive te =
     \<lparr>tree = new_root te, event = None, modified = False,
      metadata = getEmptyMetadata, trace = [],
      logn = DEFAULT_SCRYPT_LOGN, locked = True, password = None\<rparr>"

definition lock :: "'t platform \<Rightarrow> 't encrypted_drive \<Rightarrow> 't encrypted_drive" where
  "lock te d =
     (if \<not> locked d
      then d\<lparr>password := None, locked := False,
             metadata := getEmptyMetadata, tree := new_root te\<rparr>
      else d)"

definition setPassword :: "string \<Rightarrow> int \<Rightarrow> 't encrypted_drive \<Rightarrow> 't encrypted_drive" where
  "setPassword pw n d =
     (if locked d \<and> password d = None then d\<lparr>password := Some pw, logn := n\<rparr> else d)"

text \<open>
  \<open>decrypt_tags c pw\<close> stands for
  \<open>JSON.parse(decoder.decode(decrypt(base64.decode(c), pw)))\<close>: the tag list, or what one
  of the four steps throws. The empty password is falsy, so it counts as no password.
\<close>

definition EncryptedDrive_readEvent ::
  "'t platform \<Rightarrow> (string \<Rightarrow> string \<Rightarrow> error + tag list) \<Rightarrow> 't encrypted_drive \<Rightarrow> event
   \<Rightarrow> 't encrypted_drive \<times> (error + drive_metadata)" where
  "EncryptedDrive_readEvent te decrypt_tags d ev =
     (case password d of
        None \<Rightarrow> (d, Inl NoPasswordProvided)
      | Some pw \<Rightarrow>
          if pw = [] then (d, Inl NoPasswordProvided)
          else (case decrypt_tags (content ev) pw of
                  Inl e \<Rightarrow> (d, Inl e)
                | Inr tgs \<Rightarrow>
                    (let d1 = d\<lparr>locked := False\<rparr>
                     in (d1, Drive_readEvent te d1
                               (ev\<lparr>content := [], tags := tgs, created_at := 0\<rparr>)))))"

definition unlock ::
  "'t platform \<Rightarrow> (string \<Rightarrow> string \<Rightarrow> error + tag list) \<Rightarrow> string \<Rightarrow> 't encrypted_drive
   \<Rightarrow> 't encrypted_drive \<times> (error + unit)" where
  "unlock te decrypt_tags pw d =
     (case event d of
        None \<Rightarrow> (d, Inl NoEvent)
      | Some _ \<Rightarrow>
          if \<not> locked d then (d, Inl AlreadyUnlocked)
          else (case Drive_resetFromEvent (EncryptedDrive_readEvent te decrypt_tags) te
                       (d\<lparr>password := Some pw, locked := False\<rparr>) of
                  (d1, Inl e) \<Rightarrow> (d1\<lparr>password := None, locked := True\<rparr>, Inl e)
                | (d1, Inr _) \<Rightarrow> (d1, Inr ())))"

section \<open>Upload\<close>

subsection \<open>Files and the MIME correction\<close>

text \<open>A browser \<open>File\<close>: name, declared type, relative path, contents.\<close>

record js_file =
  file_name :: string
  file_type :: string
  webkitRelativePath :: string
  file_bytes :: "nat list"

text \<open>\<open>s.endsWith(suf)\<close>.\<close>

definition endsWith :: "string \<Rightarrow> string \<Rightarrow> bool" where
  "endsWith s suf = (length suf \<le> length s \<and> drop (length s - length suf) s = suf)"

text \<open>
  \<open>new File([file], file.name, {type})\<close> keeps name and contents; the new file has no
  relative path.
\<close>

definition correctFileMimeType :: "js_file \<Rightarrow> js_file" where
  "correctFileMimeType f =
     (if file_type f = ''audio/x-mpegurl'' \<and> endsWith (file_name f) ''.m3u8''
      then \<lparr>file_name = file_name f, file_type = ''application/vnd.apple.mpegurl'',
            webkitRelativePath = [], file_bytes = file_bytes f\<rparr>
      else f)"

subsection \<open>The batch\<close>

text \<open>
  What JavaScript can throw: an instance of \<open>Error\<close>, or any other value (a string, a
  rejected promise's reason that is no \<open>Error\<close>).
\<close>

datatype thrown =
    ErrorInstance error
  | NonError string

record blob_descriptor =
  blob_sha256 :: string
  blob_size :: nat
  blob_type :: "string option"

datatype upload_result =
    Success blob_descriptor
  | Failure error

text \<open>\<open>UploadFileStatus\<close>; \<open>results\<close> is keyed by server.\<close>

record file_status =
  st_complete :: bool
  pending :: bool
  serversComplete :: nat
  results :: "string \<Rightarrow> upload_result option"

record uploadable =
  up_id :: string
  up_file :: js_file
  up_path :: string

datatype upload_event =
    Start
  | Progress "rat option"
  | Complete

text \<open>
  The fields of \<open>Upload\<close>. \<open>blobs\<close> and \<open>errors\<close> are keyed by server, then by file id.
  \<open>drawn\<close> counts the calls of \<open>nanoid()\<close> so far (the n-th call returns \<open>nanoid n\<close>, a
  parameter of the functions below); \<open>emitted\<close> lists the notifications of the batch.
  The drive the batch writes to is passed along with it.
\<close>

record upload =
  up_servers :: "string list"
  basePath :: string
  complete :: bool
  running :: bool
  files :: "uploadable list"
  status :: "string \<Rightarrow> file_status option"
  blobs :: "string \<Rightarrow> (string \<Rightarrow> blob_descriptor option) option"
  errors :: "string \<Rightarrow> (string \<Rightarrow> error option) option"
  drawn :: nat
  emitted :: "upload_event list"

definition new_Upload :: "string \<Rightarrow> string list \<Rightarrow> upload" where
  "new_Upload base srvs =
     \<lparr>up_servers = srvs, basePath = base, complete = False, running = False, files = [],
      status = Map.empty, blobs = Map.empty, errors = Map.empty, drawn = 0, emitted = []\<rparr>"

subsection \<open>Accumulation\<close>

definition push_file :: "(nat \<Rightarrow> string) \<Rightarrow> js_file \<Rightarrow> string \<Rightarrow> upload \<Rightarrow> upload" where
  "push_file nanoid f p u =
     u\<lparr>files := files u @ [\<lparr>up_id = nanoid (drawn u), up_file = f, up_path = p\<rparr>],
       drawn := Suc (drawn u)\<rparr>"

text \<open>\<open>path || (file.webkitRelativePath ? file.webkitRelativePath : file.name)\<close>.\<close>

definition addFile :: "(nat \<Rightarrow> string) \<Rightarrow> js_file \<Rightarrow> string option \<Rightarrow> upload \<Rightarrow> upload" where
  "addFile nanoid f path u =
     (let dflt = (if webkitRelativePath f \<noteq> [] then webkitRelativePath f else file_name f);
          p = (case path of None \<Rightarrow> dflt | Some q \<Rightarrow> if q = [] then dflt else q)
      in push_file nanoid (correctFileMimeType f) p u)"

fun addFileList :: "(nat \<Rightarrow> string) \<Rightarrow> js_file list \<Rightarrow> upload \<Rightarrow> upload" where
  "addFileList nanoid [] u = u"
| "addFileList nanoid (f # fs) u = addFileList nanoid fs (addFile nanoid f None u)"

text \<open>
  A \<open>FileSystemEntry\<close> with what reading it gives: a file entry whose \<open>file()\<close> calls back
  with a file or with an error, a directory entry whose reader lists its entries or
  fails, and an entry that is neither.
\<close>

datatype fs_entry =
    FileEntry string js_file
  | UnreadableFile string error
  | Directory "fs_entry list"
  | UnreadableDirectory error
  | OtherEntry

fun addFileSystemEntry :: "(nat \<Rightarrow> string) \<Rightarrow> fs_entry \<Rightarrow> upload \<Rightarrow> upload \<times> (error + unit)"
  and addFileSystemEntries ::
    "(nat \<Rightarrow> string) \<Rightarrow> fs_entry list \<Rightarrow> upload \<Rightarrow> upload \<times> (error + unit)" where
  "addFileSystemEntry nanoid (FileEntry fullPath f) u =
     (push_file nanoid (correctFileMimeType f) fullPath u, Inr ())"
| "addFileSystemEntry nanoid (UnreadableFile fullPath e) u = (u, Inr ())"
| "addFileSystemEntry nanoid (Directory es) u = addFileSystemEntries nanoid es u"
| "addFileSystemEntry nanoid (UnreadableDirectory e) u = (u, Inl e)"
| "addFileSystemEntry nanoid OtherEntry u = (u, Inr ())"
| "addFileSystemEntries nanoid [] u = (u, Inr ())"
| "addFileSystemEntries nanoid (e # es) u =
     (case addFileSystemEntry nanoid e u of
        (u1, Inl x) \<Rightarrow> (u1, Inl x)
      | (u1, Inr _) \<Rightarrow> addFileSystemEntries nanoid es u1)"

text \<open>The files of the readable file entries below an entry, depth first.\<close>

fun readable_files :: "fs_entry \<Rightarrow> js_file list" where
  "readable_files (FileEntry fullPath f) = [f]"
| "readable_files (Directory es) = concat (map readable_files es)"
| "readable_files _ = []"

subsection \<open>The collaborators and the objects behind the maps\<close>

text \<open>
  The collaborators of \<open>upload()\<close>: the blob store client, the MIME table, \<open>joinPath\<close>
  and the drive (\<open>setFile\<close>, \<open>save\<close> and, for an \<open>EncryptedDrive\<close>, \<open>encryptBlob\<close>), each
  with what it can throw. \<open>uploadBlob\<close> answers by server and file. The state \<open>'w\<close>
  that is passed along with the batch is everything outside it: the drive and the rest
  of the JavaScript heap.

  \<open>blobs\<close>, \<open>errors\<close> and \<open>results\<close> are object literals, so a name with no own entry
  is looked up in \<open>Object.prototype\<close>: \<open>this.blobs["constructor"]\<close> is a function, not
  \<open>undefined\<close>. What is found there is not part of the batch: \<open>inherited_keys w k\<close> is
  \<open>None\<close> when an object literal inherits nothing (or something falsy) under \<open>k\<close> in
  the heap \<open>w\<close>, and otherwise the set \<open>Object.keys\<close> gives for the inherited value;
  \<open>builtin_assign w k i v\<close> is the effect of the assignment \<open>inherited[i] = v\<close> on that
  value, with what it throws.
\<close>

record 'w upload_env =
  uploadBlob :: "string \<Rightarrow> js_file \<Rightarrow> string \<Rightarrow> thrown + blob_descriptor"
  createUploadAuth :: "js_file \<Rightarrow> string \<Rightarrow> thrown + string"
  mime_getType :: "string \<Rightarrow> string option"
  joinPath :: "string \<Rightarrow> string \<Rightarrow> string"
  is_EncryptedDrive :: bool
  drive_encryptBlob :: "'w \<Rightarrow> nat list \<Rightarrow> thrown + nat list"
  drive_setFile :: "'w \<Rightarrow> string \<Rightarrow> file_metadata \<Rightarrow> 'w \<times> thrown option"
  drive_save :: "'w \<Rightarrow> 'w \<times> thrown option"
  inherited_keys :: "'w \<Rightarrow> string \<Rightarrow> string set option"
  builtin_assign :: "'w \<Rightarrow> string \<Rightarrow> string \<Rightarrow> upload_result \<Rightarrow> 'w \<times> thrown option"

text \<open>
  \<open>m[server]\<close> after \<open>if (!m[server]) m[server] = {}\<close>: an own entry is made only when
  nothing is found under the name, own or inherited.
\<close>

definition ensure ::
  "'w upload_env \<Rightarrow> 'w \<Rightarrow> (string \<Rightarrow> (string \<Rightarrow> 'v option) option) \<Rightarrow> string
   \<Rightarrow> (string \<Rightarrow> (string \<Rightarrow> 'v option) option)" where
  "ensure env w m s =
     (case m s of
        Some r \<Rightarrow> m
      | None \<Rightarrow> (case inherited_keys env w s of Some K \<Rightarrow> m | None \<Rightarrow> m(s \<mapsto> Map.empty)))"

text \<open>
  \<open>o[k] = v\<close> on the own properties of an object literal, for a value \<open>v\<close> that is an
  object: the key \<open>__proto__\<close> sets the prototype and adds no entry.
\<close>

definition assign_own :: "(string \<Rightarrow> 'v option) \<Rightarrow> string \<Rightarrow> 'v \<Rightarrow> (string \<Rightarrow> 'v option)" where
  "assign_own r k v = (if k = ''__proto__'' then r else r(k \<mapsto> v))"

text \<open>
  \<open>m[server][id] = v\<close>: on the own entry of the server when there is one, and otherwise
  on what is inherited under the server's name, outside the batch (\<open>written\<close> is the
  value as the heap sees it). The result is the map, the heap and what the assignment
  threw.
\<close>

definition put ::
  "'w upload_env \<Rightarrow> 'w \<Rightarrow> (string \<Rightarrow> (string \<Rightarrow> 'v option) option) \<Rightarrow> string \<Rightarrow> string \<Rightarrow> 'v
   \<Rightarrow> upload_result
   \<Rightarrow> (string \<Rightarrow> (string \<Rightarrow> 'v option) option) \<times> 'w \<times> thrown option" where
  "put env w m s i v written =
     (case m s of
        Some r \<Rightarrow> (m(s \<mapsto> assign_own r i v), w, None)
      | None \<Rightarrow> (case builtin_assign env w s i written of (w1, t) \<Rightarrow> (m, w1, t)))"

text \<open>\<open>Object.keys(m[server])\<close> as a set, empty when \<open>m[server]\<close> is falsy.\<close>

definition keys_at ::
  "'w upload_env \<Rightarrow> 'w \<Rightarrow> (string \<Rightarrow> (string \<Rightarrow> 'v option) option) \<Rightarrow> string \<Rightarrow> string set" where
  "keys_at env w m s =
     (case m s of
        Some r \<Rightarrow> dom r
      | None \<Rightarrow> (case inherited_keys env w s of Some K \<Rightarrow> K | None \<Rightarrow> {}))"

subsection \<open>Progress\<close>

text \<open>\<open>Object.keys(this.blobs[server]).length + Object.keys(this.errors[server]).length\<close>.\<close>

definition entry_count :: "'w upload_env \<Rightarrow> 'w \<Rightarrow> upload \<Rightarrow> string \<Rightarrow> nat" where
  "entry_count env w u s =
     card (keys_at env w (blobs u) s) + card (keys_at env w (errors u) s)"

definition serverProgress :: "'w upload_env \<Rightarrow> 'w \<Rightarrow> upload \<Rightarrow> string \<Rightarrow> rat" where
  "serverProgress env w u s = of_nat (entry_count env w u s) / of_nat (length (files u))"

text \<open>
  The getter \<open>progress\<close>. Its \<open>serverProgress\<close> is an object literal keyed by server, so
  a server listed twice is summed once and the number stored under \<open>__proto__\<close> is
  dropped, while the divisor is \<open>this.servers.length\<close>. The ratios are exact here (the
  source divides doubles); \<open>None\<close> stands for the value that is no finite number when
  there is no file or no server (a division by zero).
\<close>

definition progress :: "'w upload_env \<Rightarrow> 'w \<Rightarrow> upload \<Rightarrow> rat option" where
  "progress env w u =
     (if files u = [] \<or> up_servers u = [] then None
      else Some (sum_list (map (serverProgress env w u)
                             (remdups (filter (\<lambda>s. s \<noteq> ''__proto__'') (up_servers u))))
                 / of_nat (length (up_servers u))))"

definition emit_progress :: "'w upload_env \<Rightarrow> 'w \<Rightarrow> upload \<Rightarrow> upload" where
  "emit_progress env w u = u\<lparr>emitted := emitted u @ [Progress (progress env w u)]\<rparr>"

subsection \<open>Execution\<close>

definition upd_status :: "string \<Rightarrow> (file_status \<Rightarrow> file_status) \<Rightarrow> upload \<Rightarrow> upload" where
  "upd_status i f u = u\<lparr>status := (status u)(i := map_option f (status u i))\<rparr>"

definition new_status :: file_status where
  "new_status = \<lparr>st_complete = False, pending = True, serversComplete = 0, results = Map.empty\<rparr>"

fun init_status :: "uploadable list \<Rightarrow> upload \<Rightarrow> upload" where
  "init_status [] u = u"
| "init_status (x # xs) u = init_status xs (u\<lparr>status := (status u)(up_id x \<mapsto> new_status)\<rparr>)"


text \<open>\<open>status.results[server] = r\<close>.\<close>

definition record_result :: "uploadable \<Rightarrow> string \<Rightarrow> upload_result \<Rightarrow> upload \<Rightarrow> upload" where
  "record_result x server r u =
     upd_status (up_id x) (\<lambda>st. st\<lparr>results := assign_own (results st) server r\<rparr>) u"







text \<open>The batch when the second loop of \<open>upload()\<close> starts.\<close>

definition upload_start :: "upload \<Rightarrow> upload" where
  "upload_start u = init_status (files u) (u\<lparr>running := True, emitted := emitted u @ [Start]\<rparr>)"


subsection \<open>Reading a batch\<close>




text \<open>The keys of the own entry of a server, empty when it has none.\<close>

definition own_keys :: "(string \<Rightarrow> (string \<Rightarrow> 'v option) option) \<Rightarrow> string \<Rightarrow> string set" where
  "own_keys m s = (case m s of None \<Rightarrow> {} | Some r \<Rightarrow> dom r)"

section \<open>Example values\<close>

text \<open>
  The values of \<open>new URL("/", s).toString()\<close> on the strings the examples below use;
  \<open>not a url\<close> has no scheme, so the constructor throws on it. The table is not used
  on any other string.
\<close>

definition example_url_root :: "string \<Rightarrow> string option" where
  "example_url_root s =
     (if s = ''https://cdn.example.com'' then Some ''https://cdn.example.com/''
      else if s = ''https://cdn.example.com/'' then Some ''https://cdn.example.com/''
      else if s = ''https://cdn.example.com/blobs'' then Some ''https://cdn.example.com/''
      else if s = ''https://b.example.org'' then Some ''https://b.example.org/''
      else None)"

text \<open>
  A stand-in for the tree in the examples: a tree is kept as the list of its tags, and
  the tree methods do nothing but succeed. The theorems hold for every tree; the stand-in
  only serves the examples.
\<close>

definition example_platform :: "tag list platform" where
  "example_platform =
     \<lparr>url_root = example_url_root,
      createTreeFromTags = (\<lambda>ts. Inr ts),
      updateTreeInTags =
        (\<lambda>old t. filter (\<lambda>x. \<not> (tag_is ''x'' x \<or> tag_is ''folder'' x)) old @ t),
      new_root = [],
      tree_getFolder = (\<lambda>t p c. (t, Inr [])),
      tree_remove = (\<lambda>t p. (t, Inr ())),
      tree_move = (\<lambda>t p q. (t, Inr ())),
      tree_setFile = (\<lambda>t p m. (t, Inr []))\<rparr>"

text \<open>
  A plain drive that has taken one event in, a signer that adds the owner's key and a
  publisher that accepts; a cipher that accepts one password for one ciphertext, and
  an encrypted drive before and after unlocking with it.
\<close>

definition example_event :: "int \<Rightarrow> tag list \<Rightarrow> event" where
  "example_event ts tgs =
     \<lparr>kind = DRIVE_KIND, content = [], created_at = ts, tags = tgs,
      ev_pubkey = Some ''owner-key''\<rparr>"

definition example_drive :: "tag list drive" where
  "example_drive =
     fst (Drive_update example_platform
            (example_event 1700000000 [[''d'', ''photos''], [''name'', ''Holiday'']])
            (new_Drive example_platform))"

definition example_signer :: "event \<Rightarrow> error + event" where
  "example_signer tmpl = Inr (tmpl\<lparr>ev_pubkey := Some ''owner-key''\<rparr>)"

definition example_publisher :: "event \<Rightarrow> error + unit" where
  "example_publisher ev = Inr ()"

definition example_decrypt :: "string \<Rightarrow> string \<Rightarrow> error + tag list" where
  "example_decrypt c pw =
     (if c = ''b64-ciphertext'' \<and> pw = ''correct horse''
      then Inr [[''d'', ''photos''], [''name'', ''Holiday'']]
      else Inl (External ''decryption failed''))"

definition example_locked_drive :: "tag list encrypted_drive" where
  "example_locked_drive =
     (new_EncryptedDrive example_platform)
       \<lparr>event := Some \<lparr>kind = 30564, content = ''b64-ciphertext'', created_at = 1700000000,
                        tags = [[''d'', ''photos''], [''scrypt-logn'', ''10'']],
                        ev_pubkey = Some ''owner-key''\<rparr>,
        metadata := getEmptyMetadata\<lparr>md_identifier := ''photos'', md_pubkey := Some ''owner-key''\<rparr>\<rparr>"

definition example_unlocked_drive :: "tag list encrypted_drive" where
  "example_unlocked_drive = fst (unlock example_platform example_decrypt ''correct horse'' example_locked_drive)"

text \<open>
  A batch of two files for two servers, written to the example drive. The second server
  rejects every upload with a value that is no \<open>Error\<close>.
\<close>

definition example_nanoid :: "nat \<Rightarrow> string" where
  "example_nanoid n = (if n = 0 then ''id-a'' else if n = 1 then ''id-b'' else ''id-c'')"

definition example_playlist :: js_file where
  "example_playlist =
     \<lparr>file_name = ''live.m3u8'', file_type = ''audio/x-mpegurl'',
      webkitRelativePath = ''media/live.m3u8'', file_bytes = [35, 69]\<rparr>"

definition example_song :: js_file where
  "example_song =
     \<lparr>file_name = ''song.m3u'', file_type = ''audio/x-mpegurl'',
      webkitRelativePath = [], file_bytes = [35]\<rparr>"

definition example_entry :: fs_entry where
  "example_entry =
     Directory
       [FileEntry ''/media/live.m3u8'' example_playlist,
        UnreadableFile ''/media/locked.bin'' (External ''NotReadableError''),
        Directory [FileEntry ''/media/old/song.m3u'' example_song],
        OtherEntry]"












section \<open>Lemmas\<close>

lemma trace_emit: "trace (emit x d) = trace d @ [x]"
  by (simp add: emit_def)

lemma find_None_filter: "filter P xs = [] \<Longrightarrow> find P xs = None"
  by (induction xs) (auto split: if_splits)

lemma find_tag_value_absent: "filter (tag_is k) ts = [] \<Longrightarrow> find_tag_value k ts = None"
  by (simp add: find_tag_value_def find_None_filter)

lemma url_roots_map: "url_roots f xs = Inr us \<Longrightarrow> map Some us = map f xs"
  by (induction xs arbitrary: us) (auto split: option.splits sum.splits)

lemma readEvent_event_irrelevant [simp]:
  "Drive_readEvent te (d\<lparr>event := x\<rparr>) ev = Drive_readEvent te d ev"
  by (simp add: Drive_readEvent_def Let_def split: sum.splits option.splits)

lemma Drive_update_applied:
  assumes "Drive_readEvent te d e = Inr md" "createTreeFromTags te (treeTags md) = Inr t"
  shows "Drive_update te e d =
           (if newer e (event d)
            then (d\<lparr>event := Some e, metadata := md, tree := t, modified := False,
                    trace := trace d @ [EmitChange, EmitUpdate]\<rparr>, Inr True)
            else (d, Inr False))"
  using assms
  by (simp add: Drive_update_def Drive_update_with_def Drive_resetFromEvent_def
      plain_readEvent_def emit_def)

lemma Drive_update_event:
  "event (fst (Drive_update te e d)) = (if newer e (event d) then Some e else event d)"
  by (simp add: Drive_update_def Drive_update_with_def Drive_resetFromEvent_def
      plain_readEvent_def emit_def split: sum.splits prod.splits)

lemma Drive_update_rejected:
  "\<not> newer e (event d) \<Longrightarrow> Drive_update te e d = (d, Inr False)"
  by (simp add: Drive_update_def Drive_update_with_def)

lemma newer_irrefl [simp]: "\<not> newer e (Some e)"
  by (simp add: newer_def)

lemma Drive_update_twice:
  "Drive_update te e (fst (Drive_update te e d)) = (fst (Drive_update te e d), Inr False)"
proof (rule Drive_update_rejected)
  show "\<not> newer e (event (fst (Drive_update te e d)))"
    by (simp add: Drive_update_event)
qed

lemma Drive_update_monotone:
  "event d = Some r \<Longrightarrow>
     \<exists>r'. event (fst (Drive_update te e d)) = Some r' \<and> created_at r \<le> created_at r'"
  by (simp add: Drive_update_event newer_def)

lemma updates_monotone:
  "event d = Some r \<Longrightarrow>
     \<exists>r'. event (updates te es d) = Some r' \<and> created_at r \<le> created_at r'"
proof (induction es arbitrary: d r)
  case Nil
  then show ?case by simp
next
  case (Cons e es)
  from Drive_update_monotone[OF Cons.prems, of te e]
  obtain r1 where r1: "event (fst (Drive_update te e d)) = Some r1" "created_at r \<le> created_at r1"
    by blast
  from Cons.IH[OF r1(1)] obtain r' where
    "event (updates te es (fst (Drive_update te e d))) = Some r'" "created_at r1 \<le> created_at r'"
    by blast
  with r1(2) show ?case by auto
qed

lemma updates_append: "updates te (es1 @ es2) d = updates te es2 (updates te es1 d)"
  by (induction es1 arbitrary: d) auto

lemmas ex_defs = example_event_def example_platform_def example_url_root_def
  new_Drive_def getEmptyMetadata_def Drive_update_def Drive_update_with_def
  Drive_resetFromEvent_def plain_readEvent_def Drive_readEvent_def emit_def newer_def
  find_tag_value_def tag_is_def tag_value_def server_values_def List.map_filter_def

lemma example_drive_eq:
  "example_drive =
     \<lparr>tree = [], event = Some (example_event 1700000000 [[''d'', ''photos''], [''name'', ''Holiday'']]),
      modified = False,
      metadata = \<lparr>name = ''Holiday'', md_identifier = ''photos'', description = [],
                  servers = [], md_pubkey = Some ''owner-key'', treeTags = []\<rparr>,
      trace = [EmitChange, EmitUpdate]\<rparr>"
  by (simp add: example_drive_def ex_defs)

lemma readEvent_trace_irrelevant [simp]:
  "Drive_readEvent te (d\<lparr>trace := x\<rparr>) ev = Drive_readEvent te d ev"
  by (simp add: Drive_readEvent_def Let_def split: sum.splits option.splits)

lemma readEvent_emit [simp]: "Drive_readEvent te (emit x d) ev = Drive_readEvent te d ev"
  by (simp add: emit_def)

lemma event_emit [simp]: "event (emit x d) = event d"
  by (simp add: emit_def)

lemma createEventTemplate_created_at:
  "Drive_createEventTemplate te now d = Inr tmpl \<Longrightarrow> created_at tmpl = now"
  by (auto simp: Drive_createEventTemplate_def Let_def split: sum.splits)

lemmas save_defs = Drive_save_def Drive_createEventTemplate_def set_name_def removed_tag_def
  example_signer_def example_publisher_def DRIVE_KIND_def

lemma Drive_save_rejected:
  assumes "modified d" "Drive_createEventTemplate te now d = Inr tmpl"
    "signer tmpl = Inr signed" "publisher signed = Inr ()" "\<not> newer signed (event d)"
  shows "Drive_save te signer publisher now d =
           (d\<lparr>trace := trace d @ [SignerCall tmpl, PublisherCall signed]\<rparr>, Inr (Some signed))"
proof -
  let ?d2 = "emit (PublisherCall signed) (emit (SignerCall tmpl) d)"
  have "\<not> newer signed (event ?d2)" using assms(5) by simp
  then have "Drive_update te signed ?d2 = (?d2, Inr False)"
    by (rule Drive_update_rejected)
  then show ?thesis
    using assms(1-4) by (simp add: Drive_save_def Let_def) (simp add: emit_def)
qed

lemma Drive_mutators_mark_and_notify:
  "trace (set_identifier v d) = trace d @ [EmitChange] \<and> modified (set_identifier v d)"
  "trace (set_name v d) = trace d @ [EmitChange] \<and> modified (set_name v d)"
  "trace (set_description v d) = trace d @ [EmitChange] \<and> modified (set_description v d)"
  "trace (set_servers vs d) = trace d @ [EmitChange] \<and> modified (set_servers vs d)"
  "snd (Drive_remove te p d) = Inr u \<Longrightarrow>
     trace (fst (Drive_remove te p d)) = trace d @ [EmitChange] \<and> modified (fst (Drive_remove te p d))"
  "snd (Drive_move te p q d) = Inr u \<Longrightarrow>
     trace (fst (Drive_move te p q d)) = trace d @ [EmitChange] \<and> modified (fst (Drive_move te p q d))"
  "snd (Drive_setFile te p m d) = Inr f \<Longrightarrow>
     trace (fst (Drive_setFile te p m d)) = trace d @ [EmitChange] \<and> modified (fst (Drive_setFile te p m d))"
  "snd (Drive_getFolder te p True d) = Inr f \<Longrightarrow> modified (fst (Drive_getFolder te p True d))"
  by (auto simp: set_identifier_def set_name_def set_description_def set_servers_def emit_def
      Drive_remove_def Drive_move_def Drive_setFile_def Drive_getFolder_def
      split: prod.splits sum.splits)

lemma lock_unlocked:
  "\<not> locked d \<Longrightarrow>
     lock te d = d\<lparr>password := None, locked := False, metadata := getEmptyMetadata, tree := new_root te\<rparr>"
  by (simp add: lock_def)

lemma lock_locked: "locked d \<Longrightarrow> lock te d = d"
  by (simp add: lock_def)

lemmas enc_defs = example_locked_drive_def new_EncryptedDrive_def example_decrypt_def
  getEmptyMetadata_def example_platform_def DEFAULT_SCRYPT_LOGN_def

lemma example_unlocked_drive_eq:
  "example_unlocked_drive =
     example_locked_drive
       \<lparr>password := Some ''correct horse'', locked := False,
        metadata := \<lparr>name = ''Holiday'', md_identifier = ''photos'', description = [],
                     servers = [], md_pubkey = Some ''owner-key'', treeTags = []\<rparr>,
        tree := [], modified := False, trace := [EmitChange]\<rparr>"
  by (simp add: example_unlocked_drive_def enc_defs unlock_def Drive_resetFromEvent_def
      EncryptedDrive_readEvent_def ex_defs)

lemma lock_example:
  "\<not> locked example_unlocked_drive \<and> locked (lock example_platform example_unlocked_drive) = False"
  by (simp add: example_unlocked_drive_eq lock_def)

subsection \<open>Upload: accumulation\<close>

lemma correct_type:
  "file_type (correctFileMimeType f) =
     (if file_type f = ''audio/x-mpegurl'' \<and> endsWith (file_name f) ''.m3u8''
      then ''application/vnd.apple.mpegurl'' else file_type f)"
  by (simp add: correctFileMimeType_def)

lemma files_push_file: "map up_file (files (push_file nanoid f p u)) = map up_file (files u) @ [f]"
  by (simp add: push_file_def)

lemma files_addFile:
  "map up_file (files (addFile nanoid f p u)) = map up_file (files u) @ [correctFileMimeType f]"
  by (simp add: addFile_def Let_def files_push_file)

lemma files_addFileList:
  "map up_file (files (addFileList nanoid fs u)) = map up_file (files u) @ map correctFileMimeType fs"
  by (induction fs arbitrary: u) (simp_all add: files_addFile)

lemma files_addFileSystemEntry_exact:
  "\<exists>gs rest. readable_files e = gs @ rest \<and>
     (snd (addFileSystemEntry nanoid e u) = Inr () \<longrightarrow> rest = []) \<and>
     map up_file (files (fst (addFileSystemEntry nanoid e u))) =
       map up_file (files u) @ map correctFileMimeType gs"
  "\<exists>gs rest. concat (map readable_files es) = gs @ rest \<and>
     (snd (addFileSystemEntries nanoid es u) = Inr () \<longrightarrow> rest = []) \<and>
     map up_file (files (fst (addFileSystemEntries nanoid es u))) =
       map up_file (files u) @ map correctFileMimeType gs"
proof (induction nanoid e u and nanoid es u rule: addFileSystemEntry_addFileSystemEntries.induct)
  case (1 nanoid fullPath f u)
  show ?case by (rule exI[of _ "[f]"], rule exI[of _ "[]"]) (simp add: files_push_file)
next
  case (2 nanoid fullPath e u)
  show ?case by (rule exI[of _ "[]"], rule exI[of _ "[]"]) simp
next
  case (3 nanoid es u)
  then show ?case by simp
next
  case (4 nanoid e u)
  show ?case by (rule exI[of _ "[]"], rule exI[of _ "[]"]) simp
next
  case (5 nanoid u)
  show ?case by (rule exI[of _ "[]"], rule exI[of _ "[]"]) simp
next
  case (6 nanoid u)
  show ?case by (rule exI[of _ "[]"], rule exI[of _ "[]"]) simp
next
  case (7 nanoid e es u)
  from 7(1) obtain gs1 rest1 where g1: "readable_files e = gs1 @ rest1"
    "snd (addFileSystemEntry nanoid e u) = Inr () \<longrightarrow> rest1 = []"
    "map up_file (files (fst (addFileSystemEntry nanoid e u))) =
       map up_file (files u) @ map correctFileMimeType gs1" by blast
  show ?case
  proof (cases "addFileSystemEntry nanoid e u")
    case (Pair u1 r)
    show ?thesis
    proof (cases r)
      case (Inl x)
      with Pair g1 show ?thesis
        by (intro exI[of _ gs1] exI[of _ "rest1 @ concat (map readable_files es)"]) auto
    next
      case (Inr y)
      with Pair g1(2) have r1: "rest1 = []" by simp
      from 7(2)[OF Pair[symmetric] Inr] obtain gs2 rest2 where g2:
        "concat (map readable_files es) = gs2 @ rest2"
        "snd (addFileSystemEntries nanoid es u1) = Inr () \<longrightarrow> rest2 = []"
        "map up_file (files (fst (addFileSystemEntries nanoid es u1))) =
           map up_file (files u1) @ map correctFileMimeType gs2" by blast
      with Pair Inr g1 r1 show ?thesis
        by (intro exI[of _ "gs1 @ gs2"] exI[of _ rest2]) auto
    qed
  qed
qed

subsection \<open>Upload: one server\<close>

lemma fields_emit_progress [simp]:
  "status (emit_progress env w u) = status u" "blobs (emit_progress env w u) = blobs u"
  "errors (emit_progress env w u) = errors u" "files (emit_progress env w u) = files u"
  "up_servers (emit_progress env w u) = up_servers u" "basePath (emit_progress env w u) = basePath u"
  "running (emit_progress env w u) = running u" "complete (emit_progress env w u) = complete u"
  by (simp_all add: emit_progress_def)

lemma fields_upd_status [simp]:
  "blobs (upd_status i f u) = blobs u"
  "errors (upd_status i f u) = errors u" "files (upd_status i f u) = files u"
  "up_servers (upd_status i f u) = up_servers u" "basePath (upd_status i f u) = basePath u"
  "running (upd_status i f u) = running u" "complete (upd_status i f u) = complete u"
  by (simp_all add: upd_status_def)


lemma fields_record_result [simp]:
  "blobs (record_result x s r u) = blobs u" "errors (record_result x s r u) = errors u"
  "files (record_result x s r u) = files u" "up_servers (record_result x s r u) = up_servers u"
  "basePath (record_result x s r u) = basePath u"
  by (simp_all add: record_result_def)



lemma ensure_own:
  "inherited_keys env w s = None \<Longrightarrow>
     ensure env w m s = (case m s of None \<Rightarrow> m(s \<mapsto> Map.empty) | Some r \<Rightarrow> m)"
  by (simp add: ensure_def split: option.splits)



lemma put_own:
  "m s = Some r \<Longrightarrow> put env w m s i v written = (m(s \<mapsto> assign_own r i v), w, None)"
  by (simp add: put_def)

lemma own_keys_put:
  "m s' = Some r \<Longrightarrow>
     own_keys (fst (put env w m s' i v written)) s =
       (if s = s' \<and> i \<noteq> ''__proto__'' then insert i (own_keys m s) else own_keys m s)"
  by (auto simp: put_def own_keys_def assign_own_def)










subsection \<open>Upload: the servers of one file\<close>










subsection \<open>Upload: one file\<close>





lemma own_keys_fields [simp]:
  "own_keys (blobs (emit_progress env w u)) s = own_keys (blobs u) s"
  "own_keys (errors (emit_progress env w u)) s = own_keys (errors u) s"
  "own_keys (blobs (upd_status i f u)) s = own_keys (blobs u) s"
  "own_keys (errors (upd_status i f u)) s = own_keys (errors u) s"
  by simp_all





subsection \<open>Upload: the files of a batch\<close>










text \<open>The status records \<open>upload()\<close> starts from.\<close>

lemma init_status_fields [simp]:
  "blobs (init_status xs u) = blobs u" "errors (init_status xs u) = errors u"
  "files (init_status xs u) = files u" "up_servers (init_status xs u) = up_servers u"
  by (induction xs arbitrary: u) simp_all


lemma upload_start_fields [simp]:
  "blobs (upload_start u) = blobs u" "errors (upload_start u) = errors u"
  "files (upload_start u) = files u" "up_servers (upload_start u) = up_servers u"
  by (simp_all add: upload_start_def)








subsection \<open>Upload: the example batches\<close>













section \<open>The claims\<close>

subsection \<open>EncryptedDrive.lock\<close>

text \<open>
  Claim C1 fails on the lock state. \<open>lock()\<close> writes \<open>this.locked = false\<close>: on an
  unlocked drive it drops the password and empties tree and metadata, but the drive
  stays unlocked; on a locked drive it does nothing. So \<open>lock\<close> never changes the flag,
  as on the example drive that was unlocked with its password.
\<close>

theorem lock_leaves_flag:
  "locked (lock te d) = locked d \<and>
   lock te d =
     (if locked d then d
      else d\<lparr>password := None, metadata := getEmptyMetadata, tree := new_root te\<rparr>) \<and>
   locked example_unlocked_drive = False \<and>
   password example_unlocked_drive = Some ''correct horse'' \<and>
   locked (lock example_platform example_unlocked_drive) = False \<and>
   password (lock example_platform example_unlocked_drive) = None \<and>
   metadata (lock example_platform example_unlocked_drive) = getEmptyMetadata"
  by (simp add: lock_def example_unlocked_drive_eq)

subsection \<open>Drive.save\<close>

text \<open>
  Claim C2, as the code has it. \<open>save()\<close> with \<open>modified\<close> false returns at once: same
  drive, no call, no notification. Otherwise, when the template is built, the signer and
  the publisher succeed, the signed event keeps the template's \<open>created_at\<close>, and the
  final \<open>update\<close> accepts the signed event (there is no resident event or the signed
  event is strictly newer than it, and it reads back), then \<open>modified\<close> is false and the
  resident event's \<open>created_at\<close> is the template's, which is the clock value of the call.
  And when signer and publisher succeed but \<open>update\<close> rejects the signed event (there
  is a resident event and the signed one is not strictly newer), \<open>save()\<close> still returns
  the signed event, while \<open>modified\<close> stays true and the resident event is the one
  before the call.
\<close>

theorem Drive_save_applied:
  "(\<not> modified d \<longrightarrow> Drive_save te signer publisher now d = (d, Inr None)) \<and>
   (modified d \<and> Drive_createEventTemplate te now d = Inr tmpl \<and>
    signer tmpl = Inr signed \<and> publisher signed = Inr () \<and>
    created_at signed = created_at tmpl \<and>
    newer signed (event d) \<and>
    Drive_readEvent te d signed = Inr md \<and> createTreeFromTags te (treeTags md) = Inr t \<longrightarrow>
      Drive_save te signer publisher now d =
        (d\<lparr>event := Some signed, metadata := md, tree := t, modified := False,
           trace := trace d @ [SignerCall tmpl, PublisherCall signed, EmitChange, EmitUpdate]\<rparr>,
         Inr (Some signed)) \<and>
      modified (fst (Drive_save te signer publisher now d)) = False \<and>
      map_option created_at (event (fst (Drive_save te signer publisher now d))) =
        Some (created_at tmpl) \<and>
      created_at tmpl = now) \<and>
   (modified d \<and> Drive_createEventTemplate te now d = Inr tmpl \<and>
    signer tmpl = Inr signed \<and> publisher signed = Inr () \<and>
    \<not> newer signed (event d) \<longrightarrow>
      Drive_save te signer publisher now d =
        (d\<lparr>trace := trace d @ [SignerCall tmpl, PublisherCall signed]\<rparr>, Inr (Some signed)) \<and>
      modified (fst (Drive_save te signer publisher now d)) = True \<and>
      event (fst (Drive_save te signer publisher now d)) = event d)"
proof (intro conjI impI)
  assume "\<not> modified d"
  then show "Drive_save te signer publisher now d = (d, Inr None)"
    by (simp add: Drive_save_def)
next
  assume a: "modified d \<and> Drive_createEventTemplate te now d = Inr tmpl \<and>
    signer tmpl = Inr signed \<and> publisher signed = Inr () \<and>
    created_at signed = created_at tmpl \<and>
    newer signed (event d) \<and>
    Drive_readEvent te d signed = Inr md \<and> createTreeFromTags te (treeTags md) = Inr t"
  let ?d2 = "emit (PublisherCall signed) (emit (SignerCall tmpl) d)"
  have rd: "Drive_readEvent te ?d2 signed = Inr md"
    using a by simp
  have nw: "newer signed (event ?d2)"
    using a by simp
  have up: "Drive_update te signed ?d2 =
     (?d2\<lparr>event := Some signed, metadata := md, tree := t, modified := False,
                 trace := trace ?d2 @ [EmitChange, EmitUpdate]\<rparr>, Inr True)"
    using Drive_update_applied[OF rd, of t] a nw by simp
  have sv: "Drive_save te signer publisher now d =
        (d\<lparr>event := Some signed, metadata := md, tree := t, modified := False,
           trace := trace d @ [SignerCall tmpl, PublisherCall signed, EmitChange, EmitUpdate]\<rparr>,
         Inr (Some signed))"
    using a by (simp add: Drive_save_def Let_def up) (simp add: emit_def)
  show "Drive_save te signer publisher now d =
        (d\<lparr>event := Some signed, metadata := md, tree := t, modified := False,
           trace := trace d @ [SignerCall tmpl, PublisherCall signed, EmitChange, EmitUpdate]\<rparr>,
         Inr (Some signed))" by (rule sv)
  show "modified (fst (Drive_save te signer publisher now d)) = False"
    by (simp add: sv)
  show "map_option created_at (event (fst (Drive_save te signer publisher now d))) =
        Some (created_at tmpl)"
    using a by (simp add: sv)
  show "created_at tmpl = now"
    using a createEventTemplate_created_at by blast
next
  assume b: "modified d \<and> Drive_createEventTemplate te now d = Inr tmpl \<and>
    signer tmpl = Inr signed \<and> publisher signed = Inr () \<and> \<not> newer signed (event d)"
  then have sv: "Drive_save te signer publisher now d =
        (d\<lparr>trace := trace d @ [SignerCall tmpl, PublisherCall signed]\<rparr>, Inr (Some signed))"
    by (intro Drive_save_rejected) simp_all
  show "Drive_save te signer publisher now d =
        (d\<lparr>trace := trace d @ [SignerCall tmpl, PublisherCall signed]\<rparr>, Inr (Some signed))"
    by (rule sv)
  show "modified (fst (Drive_save te signer publisher now d)) = True"
    using b by (simp add: sv)
  show "event (fst (Drive_save te signer publisher now d)) = event d"
    by (simp add: sv)
qed

theorem Drive_save_applied_witness:
  "Drive_save example_platform example_signer example_publisher 1700000100 example_drive =
     (example_drive, Inr None) \<and>
   modified (fst (Drive_save example_platform example_signer example_publisher 1700000100
                    (set_name ''Trip'' example_drive))) = False \<and>
   map_option created_at
     (event (fst (Drive_save example_platform example_signer example_publisher 1700000100
                    (set_name ''Trip'' example_drive)))) = Some 1700000100 \<and>
   modified (fst (Drive_save example_platform example_signer example_publisher 1700000000
                    (set_name ''Trip'' example_drive))) = True \<and>
   event (fst (Drive_save example_platform example_signer example_publisher 1700000000
                    (set_name ''Trip'' example_drive))) = event example_drive"
proof -
  let ?d = "set_name ''Trip'' example_drive"
  let ?tmpl = "\<lparr>kind = DRIVE_KIND, content = [], created_at = 1700000100,
      tags = [[''name'', ''Trip''], [''description'', []], [''d'', ''photos'']], ev_pubkey = None\<rparr>"
  let ?signed = "?tmpl\<lparr>ev_pubkey := Some ''owner-key''\<rparr>"
  let ?md = "\<lparr>name = ''Trip'', md_identifier = ''photos'', description = [], servers = [],
          md_pubkey = Some ''owner-key'', treeTags = []\<rparr>"
  have h0: "\<not> modified example_drive"
    by (simp add: example_drive_eq)
  have h1: "modified ?d"
    by (simp add: set_name_def emit_def)
  have h2: "Drive_createEventTemplate example_platform 1700000100 ?d = Inr ?tmpl"
    by (simp add: example_drive_eq) (simp add: save_defs ex_defs)
  have h3: "example_signer ?tmpl = Inr ?signed" "example_publisher ?signed = Inr ()"
    by (simp_all add: example_signer_def example_publisher_def)
  have h4: "created_at ?signed = created_at ?tmpl"
    by simp
  have h5: "newer ?signed (event ?d)"
    by (simp add: example_drive_eq) (simp add: save_defs ex_defs)
  have h6: "Drive_readEvent example_platform ?d ?signed = Inr ?md"
    by (simp add: example_drive_eq) (simp add: save_defs ex_defs)
  have h7: "createTreeFromTags example_platform (treeTags ?md) = Inr []"
    by (simp add: example_platform_def)
  from Drive_save_applied[where d = example_drive and te = example_platform
      and signer = example_signer and publisher = example_publisher and now = 1700000100] h0
  have a: "Drive_save example_platform example_signer example_publisher 1700000100 example_drive =
     (example_drive, Inr None)"
    by blast
  from Drive_save_applied[where d = ?d and te = example_platform and now = 1700000100
      and tmpl = ?tmpl and signer = example_signer and signed = ?signed
      and publisher = example_publisher and md = ?md and t = "[]"] h1 h2 h3 h4 h5 h6 h7
  have b: "modified (fst (Drive_save example_platform example_signer example_publisher 1700000100 ?d)) = False \<and>
      map_option created_at (event (fst (Drive_save example_platform example_signer example_publisher 1700000100 ?d))) =
        Some (created_at ?tmpl)"
    by blast
  let ?tmpl0 = "\<lparr>kind = DRIVE_KIND, content = [], created_at = 1700000000,
      tags = [[''name'', ''Trip''], [''description'', []], [''d'', ''photos'']], ev_pubkey = None\<rparr>"
  let ?signed0 = "?tmpl0\<lparr>ev_pubkey := Some ''owner-key''\<rparr>"
  have k2: "Drive_createEventTemplate example_platform 1700000000 ?d = Inr ?tmpl0"
    by (simp add: example_drive_eq) (simp add: save_defs ex_defs)
  have k3: "example_signer ?tmpl0 = Inr ?signed0" "example_publisher ?signed0 = Inr ()"
    by (simp_all add: example_signer_def example_publisher_def)
  have k5: "\<not> newer ?signed0 (event ?d)"
    by (simp add: example_drive_eq) (simp add: save_defs ex_defs)
  have k6: "event ?d = event example_drive"
    by (simp add: set_name_def emit_def)
  from Drive_save_applied[where d = ?d and te = example_platform and now = 1700000000
      and tmpl = ?tmpl0 and signer = example_signer and signed = ?signed0
      and publisher = example_publisher] h1 k2 k3 k5
  have c: "modified (fst (Drive_save example_platform example_signer example_publisher 1700000000 ?d)) = True \<and>
      event (fst (Drive_save example_platform example_signer example_publisher 1700000000 ?d)) = event ?d"
    by blast
  from a b c k6 show ?thesis by simp
qed

text \<open>
  The claim without the condition on \<open>update\<close> fails: when the clock of the saving
  device is not ahead of the resident event's timestamp, signer and publisher succeed
  and \<open>save\<close> returns the signed event, but \<open>update\<close> rejects it: \<open>modified\<close> stays true
  and the resident timestamp is not the template's.
\<close>

theorem Drive_save_stale_clock_counterexample:
  "modified (set_name ''Trip'' example_drive) \<and>
   snd (Drive_save example_platform example_signer example_publisher 1699999990
          (set_name ''Trip'' example_drive)) =
     Inr (Some \<lparr>kind = DRIVE_KIND, content = [], created_at = 1699999990,
                 tags = [[''name'', ''Trip''], [''description'', []], [''d'', ''photos'']],
                 ev_pubkey = Some ''owner-key''\<rparr>) \<and>
   modified (fst (Drive_save example_platform example_signer example_publisher 1699999990
                    (set_name ''Trip'' example_drive))) = True \<and>
   map_option created_at
     (event (fst (Drive_save example_platform example_signer example_publisher 1699999990
                    (set_name ''Trip'' example_drive)))) = Some 1700000000"
  by (simp add: example_drive_eq) (simp add: save_defs ex_defs)

subsection \<open>Drive.update\<close>

text \<open>
  Claim C3, as the code has it. For every plain drive and every event \<open>e\<close> that
  \<open>readEvent\<close> and the tree decoder accept, \<open>update(e)\<close> installs \<open>e\<close> (resident event,
  metadata, tree, cleared \<open>modified\<close> flag, a change and an update notification) and
  returns true exactly when there is no resident event or \<open>e.created_at\<close> strictly
  exceeds the resident one; otherwise it returns false and changes nothing. For every
  event, a second \<open>update\<close> with the same event returns false and leaves the drive as
  the first call left it, and over any sequence of \<open>update\<close> calls (whatever they return
  or throw) the resident timestamp never decreases.
\<close>

theorem Drive_update_newer_only:
  "(Drive_readEvent te d e = Inr md \<and> createTreeFromTags te (treeTags md) = Inr t \<longrightarrow>
      Drive_update te e d =
        (if newer e (event d)
         then (d\<lparr>event := Some e, metadata := md, tree := t, modified := False,
                 trace := trace d @ [EmitChange, EmitUpdate]\<rparr>, Inr True)
         else (d, Inr False))) \<and>
   Drive_update te e (fst (Drive_update te e d)) = (fst (Drive_update te e d), Inr False) \<and>
   (\<forall>r. event (updates te es1 d) = Some r \<longrightarrow>
      (\<exists>r'. event (updates te (es1 @ es2) d) = Some r' \<and> created_at r \<le> created_at r'))"
proof (intro conjI impI allI)
  assume "Drive_readEvent te d e = Inr md \<and> createTreeFromTags te (treeTags md) = Inr t"
  then show "Drive_update te e d =
        (if newer e (event d)
         then (d\<lparr>event := Some e, metadata := md, tree := t, modified := False,
                 trace := trace d @ [EmitChange, EmitUpdate]\<rparr>, Inr True)
         else (d, Inr False))"
    by (simp add: Drive_update_applied)
next
  show "Drive_update te e (fst (Drive_update te e d)) = (fst (Drive_update te e d), Inr False)"
    by (rule Drive_update_twice)
next
  fix r assume "event (updates te es1 d) = Some r"
  then show "\<exists>r'. event (updates te (es1 @ es2) d) = Some r' \<and> created_at r \<le> created_at r'"
    unfolding updates_append by (rule updates_monotone)
qed

theorem Drive_update_newer_only_witness:
  "Drive_readEvent example_platform example_drive
     (example_event 1700000100 [[''d'', ''photos'']]) =
     Inr \<lparr>name = ''photos'', md_identifier = ''photos'', description = [], servers = [],
          md_pubkey = Some ''owner-key'', treeTags = []\<rparr> \<and>
   Drive_update example_platform (example_event 1700000100 [[''d'', ''photos'']]) example_drive =
     (example_drive
        \<lparr>event := Some (example_event 1700000100 [[''d'', ''photos'']]),
         metadata := \<lparr>name = ''photos'', md_identifier = ''photos'', description = [],
                      servers = [], md_pubkey = Some ''owner-key'', treeTags = []\<rparr>,
         tree := [], modified := False,
         trace := [EmitChange, EmitUpdate, EmitChange, EmitUpdate]\<rparr>, Inr True) \<and>
   (\<exists>r'. event (updates example_platform
                 ([] @ [example_event 1600000000 [[''d'', ''photos'']]]) example_drive) = Some r' \<and>
         1700000000 \<le> created_at r')"
proof -
  let ?e = "example_event 1700000100 [[''d'', ''photos'']]"
  let ?md = "\<lparr>name = ''photos'', md_identifier = ''photos'', description = [], servers = [],
          md_pubkey = Some ''owner-key'', treeTags = []\<rparr>"
  have h1: "Drive_readEvent example_platform example_drive ?e = Inr ?md"
    by (simp add: example_drive_eq) (simp add: ex_defs)
  have h2: "createTreeFromTags example_platform (treeTags ?md) = Inr []"
    by (simp add: example_platform_def)
  have h3: "newer ?e (event example_drive)"
    by (simp add: example_drive_eq) (simp add: ex_defs)
  have h4: "event (updates example_platform [] example_drive) =
              Some (example_event 1700000000 [[''d'', ''photos''], [''name'', ''Holiday'']])"
    by (simp add: example_drive_eq)
  note inst = Drive_update_newer_only[of example_platform example_drive ?e ?md "[]" "[]"
      "[example_event 1600000000 [[''d'', ''photos'']]]"]
  from inst h1 h2 h3 have a: "Drive_update example_platform ?e example_drive =
     (example_drive\<lparr>event := Some ?e, metadata := ?md, tree := [], modified := False,
         trace := trace example_drive @ [EmitChange, EmitUpdate]\<rparr>, Inr True)"
    by simp
  from inst h4 have b: "\<exists>r'. event (updates example_platform
                 ([] @ [example_event 1600000000 [[''d'', ''photos'']]]) example_drive) = Some r' \<and>
         created_at (example_event 1700000000 [[''d'', ''photos''], [''name'', ''Holiday'']]) \<le> created_at r'"
    by blast
  have c: "trace example_drive = [EmitChange, EmitUpdate]"
    by (simp add: example_drive_eq)
  from b have b': "\<exists>r'. event (updates example_platform
                 ([] @ [example_event 1600000000 [[''d'', ''photos'']]]) example_drive) = Some r' \<and>
         1700000000 \<le> created_at r'"
    by (simp add: example_event_def)
  show ?thesis using h1 a b' c by simp
qed

text \<open>
  The claim without the restriction to accepted events fails: a new drive has no resident
  event, yet \<open>update\<close> of an event with no \<open>d\<close> tag throws instead of returning true, and
  the metadata is not that of the event.
\<close>

theorem Drive_update_missing_d_counterexample:
  "newer (example_event 1700000000 [[''name'', ''Holiday'']]) (event (new_Drive example_platform)) \<and>
   snd (Drive_update example_platform (example_event 1700000000 [[''name'', ''Holiday'']])
          (new_Drive example_platform)) = Inl MissingDTag \<and>
   metadata (fst (Drive_update example_platform (example_event 1700000000 [[''name'', ''Holiday'']])
          (new_Drive example_platform))) = getEmptyMetadata"
  by (simp add: ex_defs)

subsection \<open>Drive.readEvent\<close>

text \<open>
  Claim C4, as the code has it. An event with no \<open>d\<close> tag makes \<open>readEvent\<close> fail: with
  the missing-identifier error when every \<open>r\<close>/\<open>server\<close> value is a URL, and with the
  error of the \<open>URL\<close> constructor otherwise (the servers are read first). When
  \<open>readEvent\<close> returns, an event with no \<open>name\<close> tag gets the identifier the drive had
  before the call as its name (\<open>?? this.identifier\<close>; the empty string on a new drive),
  and an event with no \<open>description\<close> tag gets the empty description.
\<close>

theorem readEvent_defaults:
  "(filter (tag_is ''d'') (tags ev) = [] \<longrightarrow>
      Drive_readEvent te d ev =
        Inl (case url_roots (url_root te) (server_values (tags ev)) of
               Inl e \<Rightarrow> e | Inr _ \<Rightarrow> MissingDTag)) \<and>
   (Drive_readEvent te d ev = Inr md \<longrightarrow>
      (filter (tag_is ''name'') (tags ev) = [] \<longrightarrow> name md = md_identifier (metadata d)) \<and>
      (filter (tag_is ''description'') (tags ev) = [] \<longrightarrow> description md = []))"
  by (auto simp: Drive_readEvent_def Let_def find_tag_value_absent split: sum.splits option.splits if_splits)

theorem readEvent_defaults_witness:
  "Drive_readEvent example_platform example_drive (example_event 1700000100 [[''name'', ''Trip'']]) =
     Inl MissingDTag \<and>
   name \<lparr>name = ''photos'', md_identifier = ''photos'', description = [], servers = [],
          md_pubkey = Some ''owner-key'', treeTags = []\<rparr> = md_identifier (metadata example_drive) \<and>
   description \<lparr>name = ''photos'', md_identifier = ''photos'', description = [], servers = [],
          md_pubkey = Some ''owner-key'', treeTags = []\<rparr> = []"
proof -
  let ?e1 = "example_event 1700000100 [[''name'', ''Trip'']]"
  let ?e2 = "example_event 1700000100 [[''d'', ''photos'']]"
  let ?md = "\<lparr>name = ''photos'', md_identifier = ''photos'', description = [], servers = [],
          md_pubkey = Some ''owner-key'', treeTags = []\<rparr>"
  have h1: "filter (tag_is ''d'') (tags ?e1) = []"
    by (simp add: example_event_def tag_is_def)
  have h2: "url_roots (url_root example_platform) (server_values (tags ?e1)) = Inr []"
    by (simp add: ex_defs)
  have h3: "Drive_readEvent example_platform example_drive ?e2 = Inr ?md"
    by (simp add: example_drive_eq) (simp add: ex_defs)
  have h4: "filter (tag_is ''name'') (tags ?e2) = []" "filter (tag_is ''description'') (tags ?e2) = []"
    by (simp_all add: example_event_def tag_is_def)
  from readEvent_defaults[of ?e1 example_platform example_drive] h1 h2
  have a: "Drive_readEvent example_platform example_drive ?e1 = Inl MissingDTag"
    by simp
  from readEvent_defaults[of ?e2 example_platform example_drive ?md] h3 h4
  have b: "name ?md = md_identifier (metadata example_drive) \<and> description ?md = []"
    by blast
  from a b show ?thesis by blast
qed

text \<open>
  The claim as stated fails twice: on a drive whose identifier is \<open>photos\<close> an event
  with no \<open>name\<close> tag is read with the name \<open>photos\<close>, not the empty string; and an event
  with no \<open>d\<close> tag and a server value that is no URL fails with the URL's error, not
  with the missing-identifier error.
\<close>

theorem readEvent_defaults_counterexample:
  "filter (tag_is ''name'') (tags (example_event 1700000100 [[''d'', ''photos'']])) = [] \<and>
   Drive_readEvent example_platform example_drive (example_event 1700000100 [[''d'', ''photos'']]) =
     Inr \<lparr>name = ''photos'', md_identifier = ''photos'', description = [], servers = [],
          md_pubkey = Some ''owner-key'', treeTags = []\<rparr> \<and>
   filter (tag_is ''d'') (tags (example_event 1700000100 [[''r'', ''not a url'']])) = [] \<and>
   Drive_readEvent example_platform example_drive (example_event 1700000100 [[''r'', ''not a url'']]) =
     Inl (InvalidURL ''not a url'')"
  by (simp add: example_drive_eq) (simp add: ex_defs)

text \<open>
  Claim C5, as the code has it. The servers of the returned metadata are the values of
  the event's \<open>r\<close> and \<open>server\<close> tags that have a non-empty value, each resolved to its
  origin root, in the order of the tags and one entry per tag: nothing is removed, so a
  URL carried by several tags appears as often as it is carried.
\<close>

theorem readEvent_servers:
  "Drive_readEvent te d ev = Inr md \<Longrightarrow>
     map Some (servers md) = map (url_root te) (server_values (tags ev))"
  by (auto simp: Drive_readEvent_def Let_def url_roots_map split: sum.splits option.splits if_splits)

theorem readEvent_servers_witness:
  "map Some [''https://cdn.example.com/'', ''https://b.example.org/''] =
     map (url_root example_platform)
       (server_values (tags (example_event 1700000100
          [[''d'', ''photos''], [''server'', ''https://cdn.example.com/blobs''],
           [''r'', ''https://b.example.org'']])))"
proof -
  let ?e = "example_event 1700000100
          [[''d'', ''photos''], [''server'', ''https://cdn.example.com/blobs''],
           [''r'', ''https://b.example.org'']]"
  let ?md = "\<lparr>name = ''photos'', md_identifier = ''photos'', description = [],
      servers = [''https://cdn.example.com/'', ''https://b.example.org/''],
          md_pubkey = Some ''owner-key'', treeTags = []\<rparr>"
  have h: "Drive_readEvent example_platform example_drive ?e = Inr ?md"
    by (simp add: example_drive_eq) (simp add: ex_defs)
  from readEvent_servers[OF h] show ?thesis by simp
qed

text \<open>
  The same server URL in two tags gives the same normalized URL twice: the list is not
  free of duplicates.
\<close>

theorem readEvent_servers_counterexample:
  "Drive_readEvent example_platform example_drive
     (example_event 1700000100
        [[''d'', ''photos''], [''server'', ''https://cdn.example.com''],
         [''server'', ''https://cdn.example.com'']]) =
     Inr \<lparr>name = ''photos'', md_identifier = ''photos'', description = [],
          servers = [''https://cdn.example.com/'', ''https://cdn.example.com/''],
          md_pubkey = Some ''owner-key'', treeTags = []\<rparr> \<and>
   \<not> distinct [''https://cdn.example.com/'', ''https://cdn.example.com/'']"
  by (simp add: example_drive_eq) (simp add: ex_defs)

subsection \<open>EncryptedDrive.unlock\<close>

text \<open>
  Claim C6, as the code has it. On a locked drive with a resident event, \<open>unlock\<close> with a
  password under which the content does not decrypt throws, removes the password
  association and leaves the drive locked with the same resident event, metadata, tree,
  \<open>modified\<close> flag and notifications as before. The error thrown is the cipher's for a
  non-empty password; the empty password is rejected before the cipher is called, with
  the no-password error.
\<close>

theorem unlock_wrong_password:
  assumes "locked d" and "event d = Some ev" and "decrypt_tags (content ev) pw = Inl err"
  shows "unlock te decrypt_tags pw d =
           (d\<lparr>password := None\<rparr>, Inl (if pw = [] then NoPasswordProvided else err))"
  using assms
  by (simp add: unlock_def Drive_resetFromEvent_def EncryptedDrive_readEvent_def)

theorem unlock_wrong_password_witness:
  "unlock example_platform example_decrypt ''tr0ub4dor'' example_locked_drive =
     (example_locked_drive, Inl (External ''decryption failed''))"
proof -
  let ?ev = "\<lparr>kind = 30564, content = ''b64-ciphertext'', created_at = 1700000000,
                        tags = [[''d'', ''photos''], [''scrypt-logn'', ''10'']],
                        ev_pubkey = Some ''owner-key''\<rparr>"
  have h1: "locked example_locked_drive"
    by (simp add: enc_defs)
  have h2: "event example_locked_drive = Some ?ev"
    by (simp add: enc_defs)
  have h3: "example_decrypt (content ?ev) ''tr0ub4dor'' = Inl (External ''decryption failed'')"
    by (simp add: example_decrypt_def)
  have h4: "example_locked_drive\<lparr>password := None\<rparr> = example_locked_drive"
    by (simp add: enc_defs)
  from unlock_wrong_password[where d = example_locked_drive and ev = ?ev
      and decrypt_tags = example_decrypt and pw = "''tr0ub4dor''" and te = example_platform
      and err = "External ''decryption failed''"] h1 h2 h3 h4
  show ?thesis by simp
qed

text \<open>
  With the empty password the error that reaches the caller is not a decryption error.
\<close>

theorem unlock_empty_password_counterexample:
  "locked example_locked_drive \<and>
   example_decrypt ''b64-ciphertext'' [] = Inl (External ''decryption failed'') \<and>
   unlock example_platform example_decrypt [] example_locked_drive =
     (example_locked_drive, Inl NoPasswordProvided)"
  by (simp add: enc_defs unlock_def Drive_resetFromEvent_def EncryptedDrive_readEvent_def)

subsection \<open>Mutating accessors\<close>

text \<open>
  Claim C7 fails for folder creation. \<open>getFolder(path, true)\<close> sets \<open>modified\<close> but
  emits nothing: whatever the tree does, the notifications after the call are those
  before it; on a new drive \<open>getFolder("docs", true)\<close> leaves \<open>modified\<close> true and no
  notification. (The setters, \<open>remove\<close>, \<open>move\<close> and \<open>setFile\<close> do emit \<open>change\<close>, see
  \<open>Drive_mutators_mark_and_notify\<close>.)
\<close>

theorem Drive_getFolder_no_change_event:
  "trace (fst (Drive_getFolder te path True d)) = trace d \<and>
   modified (fst (Drive_getFolder example_platform ''docs'' True (new_Drive example_platform))) \<and>
   trace (fst (Drive_getFolder example_platform ''docs'' True (new_Drive example_platform))) = []"
  by (simp add: Drive_getFolder_def example_platform_def new_Drive_def split: prod.splits sum.splits)

subsection \<open>MIME correction of accepted files\<close>

text \<open>
  Claim C8. \<open>correctFileMimeType\<close> replaces the declared type by
  \<open>application/vnd.apple.mpegurl\<close> exactly when the type is \<open>audio/x-mpegurl\<close> and the
  name ends with \<open>.m3u8\<close>, and keeps name and contents; every other file is returned as
  it is. \<open>addFile\<close> records the corrected file and \<open>addFileList\<close> the corrected files of
  the list in order. \<open>addFileSystemEntry\<close>, when it returns, has recorded the corrected
  file of every readable file entry below the entry, depth first; when a directory
  cannot be listed it throws and has recorded the corrected files of those read before.
  No file enters the batch uncorrected.
\<close>

theorem accepted_files_type_corrected:
  "file_type (correctFileMimeType f) =
     (if file_type f = ''audio/x-mpegurl'' \<and> endsWith (file_name f) ''.m3u8''
      then ''application/vnd.apple.mpegurl'' else file_type f) \<and>
   file_name (correctFileMimeType f) = file_name f \<and>
   file_bytes (correctFileMimeType f) = file_bytes f \<and>
   map up_file (files (addFile nanoid f p u)) = map up_file (files u) @ [correctFileMimeType f] \<and>
   map up_file (files (addFileList nanoid fs u)) =
     map up_file (files u) @ map correctFileMimeType fs \<and>
   (snd (addFileSystemEntry nanoid e u) = Inr () \<longrightarrow>
      map up_file (files (fst (addFileSystemEntry nanoid e u))) =
        map up_file (files u) @ map correctFileMimeType (readable_files e)) \<and>
   (\<exists>gs rest. readable_files e = gs @ rest \<and>
      map up_file (files (fst (addFileSystemEntry nanoid e u))) =
        map up_file (files u) @ map correctFileMimeType gs)"
proof -
  from files_addFileSystemEntry_exact(1)[of e nanoid u]
  obtain gs rest where g: "readable_files e = gs @ rest"
    "snd (addFileSystemEntry nanoid e u) = Inr () \<longrightarrow> rest = []"
    "map up_file (files (fst (addFileSystemEntry nanoid e u))) =
       map up_file (files u) @ map correctFileMimeType gs"
    by blast
  have exact: "snd (addFileSystemEntry nanoid e u) = Inr () \<longrightarrow>
      map up_file (files (fst (addFileSystemEntry nanoid e u))) =
        map up_file (files u) @ map correctFileMimeType (readable_files e)"
    using g by auto
  have part: "\<exists>gs rest. readable_files e = gs @ rest \<and>
      map up_file (files (fst (addFileSystemEntry nanoid e u))) =
        map up_file (files u) @ map correctFileMimeType gs"
    using g by blast
  have "file_name (correctFileMimeType f) = file_name f"
       "file_bytes (correctFileMimeType f) = file_bytes f"
    by (simp_all add: correctFileMimeType_def)
  with exact part show ?thesis
    by (simp add: correct_type files_addFile files_addFileList)
qed

theorem accepted_files_type_corrected_witness:
  "map (file_type \<circ> up_file)
     (files (addFileList example_nanoid [example_playlist, example_song] (new_Upload ''/'' []))) =
     [''application/vnd.apple.mpegurl'', ''audio/x-mpegurl''] \<and>
   snd (addFileSystemEntry example_nanoid example_entry (new_Upload ''/'' [])) = Inr () \<and>
   map (file_type \<circ> up_file)
     (files (fst (addFileSystemEntry example_nanoid example_entry (new_Upload ''/'' [])))) =
     [''application/vnd.apple.mpegurl'', ''audio/x-mpegurl'']"
proof -
  let ?u = "new_Upload ''/'' []"
  have a: "file_type (correctFileMimeType example_playlist) = ''application/vnd.apple.mpegurl''"
    using accepted_files_type_corrected[of example_playlist]
    by (simp add: example_playlist_def endsWith_def)
  have b: "file_type (correctFileMimeType example_song) = ''audio/x-mpegurl''"
    using accepted_files_type_corrected[of example_song]
    by (simp add: example_song_def endsWith_def)
  have c: "map up_file (files (addFileList example_nanoid [example_playlist, example_song] ?u)) =
     map up_file (files ?u) @ map correctFileMimeType [example_playlist, example_song]"
    using accepted_files_type_corrected[where nanoid = example_nanoid
        and fs = "[example_playlist, example_song]" and u = ?u]
    by blast
  have ok: "snd (addFileSystemEntry example_nanoid example_entry ?u) = Inr ()"
    by (simp add: example_entry_def)
  have rf: "readable_files example_entry = [example_playlist, example_song]"
    by (simp add: example_entry_def)
  have d: "map up_file (files (fst (addFileSystemEntry example_nanoid example_entry ?u))) =
     map up_file (files ?u) @ map correctFileMimeType [example_playlist, example_song]"
    using accepted_files_type_corrected[where nanoid = example_nanoid
        and e = example_entry and u = ?u] ok rf
    by simp
  have l: "map (file_type \<circ> up_file)
     (files (addFileList example_nanoid [example_playlist, example_song] ?u)) =
     map file_type (map up_file (files (addFileList example_nanoid [example_playlist, example_song] ?u)))"
    by simp
  have r: "map (file_type \<circ> up_file)
     (files (fst (addFileSystemEntry example_nanoid example_entry ?u))) =
     map file_type (map up_file (files (fst (addFileSystemEntry example_nanoid example_entry ?u))))"
    by simp
  have e: "files ?u = []" by (simp add: new_Upload_def)
  show ?thesis
    unfolding l r c d using a b ok e by simp
qed

subsection \<open>A failed update is not rolled back\<close>

text \<open>
  Claim C9, as the code has it. For a drive with resident event \<open>r\<close> and an event \<open>e\<close>
  that is strictly newer and has no \<open>d\<close> tag, \<open>update(e)\<close> throws, and the drive it leaves
  behind has \<open>e\<close> as its resident event while metadata, tree, \<open>modified\<close> flag and
  notifications are as before. The error is the missing-identifier error when every
  \<open>r\<close>/\<open>server\<close> value of \<open>e\<close> is a URL, and the error of the \<open>URL\<close> constructor otherwise.
\<close>

theorem Drive_update_not_atomic:
  assumes "event d = Some r" and "created_at r < created_at e"
    and "filter (tag_is ''d'') (tags e) = []"
  shows "Drive_update te e d =
           (d\<lparr>event := Some e\<rparr>,
            Inl (case url_roots (url_root te) (server_values (tags e)) of
                   Inl err \<Rightarrow> err | Inr _ \<Rightarrow> MissingDTag))"
proof -
  have "newer e (event d)"
    using assms(1,2) by (simp add: newer_def)
  moreover have "Drive_readEvent te d e =
      Inl (case url_roots (url_root te) (server_values (tags e)) of
                   Inl err \<Rightarrow> err | Inr _ \<Rightarrow> MissingDTag)"
    using assms(3)
    by (auto simp: Drive_readEvent_def Let_def find_tag_value_absent split: sum.splits)
  ultimately show ?thesis
    by (simp add: Drive_update_def Drive_update_with_def Drive_resetFromEvent_def
        plain_readEvent_def)
qed

theorem Drive_update_not_atomic_witness:
  "Drive_update example_platform (example_event 1700000100 [[''name'', ''Trip'']]) example_drive =
     (example_drive\<lparr>event := Some (example_event 1700000100 [[''name'', ''Trip'']])\<rparr>,
      Inl MissingDTag)"
proof -
  let ?e = "example_event 1700000100 [[''name'', ''Trip'']]"
  let ?r = "example_event 1700000000 [[''d'', ''photos''], [''name'', ''Holiday'']]"
  have h1: "event example_drive = Some ?r"
    by (simp add: example_drive_eq)
  have h2: "created_at ?r < created_at ?e"
    by (simp add: example_event_def)
  have h3: "filter (tag_is ''d'') (tags ?e) = []"
    by (simp add: example_event_def tag_is_def)
  have h4: "url_roots (url_root example_platform) (server_values (tags ?e)) = Inr []"
    by (simp add: ex_defs)
  from Drive_update_not_atomic[OF h1 h2 h3, of example_platform] h4 show ?thesis
    by simp
qed

text \<open>
  With a server value that is no URL the error raised is not the missing-identifier
  error (the drive is left in the same half-updated state).
\<close>

theorem Drive_update_not_atomic_counterexample:
  "event example_drive = Some (example_event 1700000000 [[''d'', ''photos''], [''name'', ''Holiday'']]) \<and>
   created_at (example_event 1700000000 [[''d'', ''photos''], [''name'', ''Holiday'']])
     < created_at (example_event 1700000100 [[''server'', ''not a url'']]) \<and>
   filter (tag_is ''d'') (tags (example_event 1700000100 [[''server'', ''not a url'']])) = [] \<and>
   Drive_update example_platform (example_event 1700000100 [[''server'', ''not a url'']]) example_drive =
     (example_drive\<lparr>event := Some (example_event 1700000100 [[''server'', ''not a url'']])\<rparr>,
      Inl (InvalidURL ''not a url''))"
  by (simp add: example_drive_eq) (simp add: ex_defs)

subsection \<open>An upload that throws a value that is no Error\<close>




end
